theory Spec2Isabelle
  imports Main
begin

section \<open>SENDY: a pass-and-play board game (src/app/page.tsx)\<close>

text \<open>
  The game logic of the page component is embedded as pure functions on the game state.
  JavaScript numbers that hold positions, indices and timestamps are integers here.
  A \<open>TypeError\<close> of the source (a property read on \<open>undefined\<close>) is the value
  \<open>None\<close> of the function that would raise it. The clock (\<open>nowMs\<close>), the identity
  generator (\<open>crypto.randomUUID\<close>) and the random source are arguments.
\<close>

subsection \<open>Constants and helpers\<close>

definition MAX_PLAYERS :: nat where
  "MAX_PLAYERS = 16"

definition COLS :: int where
  "COLS = 7"

definition ROWS :: int where
  "ROWS = 5"

definition TILE_COUNT :: int where
  "TILE_COUNT = COLS * ROWS"

definition WIN_INDEX :: int where
  "WIN_INDEX = TILE_COUNT - 1"

definition PLAYER_COLORS :: "string list" where
  "PLAYER_COLORS =
     [''#FF3B30'', ''#FF9500'', ''#FFCC00'', ''#34C759'', ''#00C7BE'',
      ''#32ADE6'', ''#007AFF'', ''#5856D6'', ''#AF52DE'', ''#FF2D55'',
      ''#FF6B6B'', ''#4D96FF'', ''#6BCB77'', ''#FFD93D'', ''#845EC2'', ''#00A8E8'']"

definition clamp :: "int \<Rightarrow> int \<Rightarrow> int \<Rightarrow> int" where
  "clamp n a b = max a (min b n)"

text \<open>Reading \<open>xs[k]\<close> of a JavaScript array: \<open>undefined\<close> (here \<open>None\<close>) out of range.\<close>

definition at_index :: "'a list \<Rightarrow> int \<Rightarrow> 'a option" where
  "at_index xs k = (if 0 \<le> k \<and> k < int (length xs) then Some (xs ! nat k) else None)"

text \<open>\<open>String(i)\<close> for a non-negative integer: its decimal digits.\<close>

fun string_of_nat :: "nat \<Rightarrow> string" where
  "string_of_nat n =
     (if n < 10 then [''0123456789'' ! n]
      else string_of_nat (n div 10) @ [''0123456789'' ! (n mod 10)])"

subsection \<open>Tiles and the board\<close>

datatype TileType =
  Start | Path | Safe | Sip2 | Sip3 | Sip5 | Sip10 | Chug10s | Shotgun | Finish
  | Back5 | Snap | Tiktok | Dare | Win

record Tile =
  tile_i :: int
  tile_type :: TileType
  tile_label :: string

text \<open>The helper \<open>set\<close> inside \<open>buildBoard\<close>: out-of-range indices are ignored.\<close>

definition set_tile :: "int \<Rightarrow> TileType \<Rightarrow> string \<Rightarrow> Tile list \<Rightarrow> Tile list" where
  "set_tile k t l brd =
     (if k < 0 \<or> k \<ge> TILE_COUNT then brd
      else brd[nat k := \<lparr>tile_i = k, tile_type = t, tile_label = l\<rparr>])"

text \<open>\<open>[..].forEach((i) => set(i, type, label))\<close>.\<close>

definition set_each :: "int list \<Rightarrow> TileType \<Rightarrow> string \<Rightarrow> Tile list \<Rightarrow> Tile list" where
  "set_each ks t l brd = fold (\<lambda>k b. set_tile k t l b) ks brd"

definition blank_board :: "Tile list" where
  "blank_board =
     map (\<lambda>k. \<lparr>tile_i = int k, tile_type = Path, tile_label = string_of_nat k\<rparr>)
       [0..<nat TILE_COUNT]"

definition buildBoard :: "Tile list" where
  "buildBoard =
     (set_tile 27 Tiktok ''TIKTOK''
     (set_tile 13 Tiktok ''TIKTOK''
     (set_tile 8 Dare ''DARE''
     (set_tile 17 Snap ''SNAP''
     (set_tile 10 Snap ''SNAP''
     (set_tile 12 Back5 ''BACK 5''
     (set_each [32, 33] Finish ''FINISH''
     (set_tile 24 Shotgun ''SHOTGUN''
     (set_each [20, 26] Chug10s ''CHUG''
     (set_each [9, 16] Sip10 ''10''
     (set_each [4, 19, 25, 28] Sip5 ''5''
     (set_each [2, 7, 11, 15, 18, 21, 30] Sip3 ''3''
     (set_each [6, 22] Sip2 ''2''
     (set_each [1, 14, 29] Safe ''SAFE''
     (set_tile WIN_INDEX Win ''WIN''
     (set_tile 0 Start ''START'' blank_board))))))))))))))))"

subsection \<open>Game state\<close>

record Player =
  pid :: string
  pname :: string
  pos :: int
  color :: string

record GameTimer =
  tid :: string
  tlabel :: string
  endsAt :: int

datatype PopupAction = Continue | StartSnapTimer | StartTikTokTimer

text \<open>
  A popup's \<open>title\<close> and \<open>subtitle\<close> are the two strings of \<open>TILE_TEXT[type]\<close>; the
  table gives every tile type its own title, so the popup keeps the key \<open>popup_text\<close>
  of the table entry it shows.
\<close>

record Popup =
  popup_text :: TileType
  button :: string
  action :: PopupAction

datatype Phase = Lobby | Playing | Finished

record GameState =
  phase :: Phase
  board :: "Tile list"
  players :: "Player list"
  current :: int
  passScreen :: bool
  lastRoll :: "int option"
  popup :: "Popup option"
  timers :: "GameTimer list"
  winnerName :: "string option"
  animating :: bool

definition initialState :: GameState where
  "initialState =
     \<lparr>phase = Lobby, board = buildBoard, players = [], current = 0, passScreen = False,
      lastRoll = None, popup = None, timers = [], winnerName = None, animating = False\<rparr>"

subsection \<open>Moving the token (animateMove, first part)\<close>

text \<open>
  The positions the token visits, one by one: up to the raw target, or up to the win
  tile and then back by the overshoot.
\<close>

definition movePath :: "int \<Rightarrow> int \<Rightarrow> int list" where
  "movePath start steps =
     (let rawTarget = start + steps in
      if rawTarget \<le> WIN_INDEX then [start + 1..rawTarget]
      else [start + 1..WIN_INDEX] @
           (let overshoot = rawTarget - WIN_INDEX in map (\<lambda>b. WIN_INDEX - b) [1..overshoot]))"

text \<open>One animation step: the current player's copy gets the position \<open>p\<close>.\<close>

definition stepTo :: "int \<Rightarrow> int \<Rightarrow> GameState \<Rightarrow> GameState option" where
  "stepTo steps p s =
     (case at_index (players s) (current s) of
        None \<Rightarrow> None
      | Some me \<Rightarrow>
          Some (s\<lparr>players := (players s)[nat (current s) := me\<lparr>pos := p\<rparr>],
                  lastRoll := Some steps\<rparr>))"

fun walk :: "int \<Rightarrow> int list \<Rightarrow> GameState \<Rightarrow> GameState option" where
  "walk steps [] s = Some s"
| "walk steps (p # ps) s =
     (case stepTo steps p s of None \<Rightarrow> None | Some s' \<Rightarrow> walk steps ps s')"

text \<open>The part of \<open>animateMove\<close> before the landing is resolved.\<close>

definition moveAlong :: "int \<Rightarrow> GameState \<Rightarrow> GameState option" where
  "moveAlong steps s =
     (case at_index (players s) (current s) of
        None \<Rightarrow> None
      | Some p0 \<Rightarrow> walk steps (movePath (pos p0) steps) (s\<lparr>animating := True\<rparr>))"

subsection \<open>Resolving the landing (animateMove, second part)\<close>

definition popupFor :: "TileType \<Rightarrow> string \<Rightarrow> PopupAction \<Rightarrow> Popup" where
  "popupFor t b a = \<lparr>popup_text = t, button = b, action = a\<rparr>"

definition resolveTile :: "GameState \<Rightarrow> Player list \<Rightarrow> Player \<Rightarrow> TileType \<Rightarrow> GameState" where
  "resolveTile s ps me t =
     (if t = Win then
        s\<lparr>players := ps, phase := Finished, winnerName := Some (pname me),
          popup := Some (popupFor Win ''NEW GAME'' Continue), animating := False\<rparr>
      else if t = Snap then
        s\<lparr>players := ps, popup := Some (popupFor Snap ''START 10:00 TIMER'' StartSnapTimer),
          animating := False\<rparr>
      else if t = Tiktok then
        s\<lparr>players := ps,
          popup := Some (popupFor Tiktok ''START 60:00 TIMER'' StartTikTokTimer),
          animating := False\<rparr>
      else if t = Dare then
        s\<lparr>players := ps, popup := Some (popupFor Dare ''CONTINUE'' Continue),
          animating := False\<rparr>
      else
        s\<lparr>players := ps, popup := Some (popupFor t ''CONTINUE'' Continue),
          animating := False\<rparr>)"

definition resolveLanding :: "GameState \<Rightarrow> GameState option" where
  "resolveLanding s =
     (case at_index (players s) (current s) of
        None \<Rightarrow> None
      | Some me \<Rightarrow>
          (case at_index (board s) (pos me) of
             None \<Rightarrow> None
           | Some tile \<Rightarrow>
               if tile_type tile = Back5 then
                 (let me' = me\<lparr>pos := clamp (pos me - 5) 0 WIN_INDEX\<rparr>;
                      ps = (players s)[nat (current s) := me']
                  in case at_index (board s) (pos me') of
                       None \<Rightarrow> None
                     | Some landed \<Rightarrow> Some (resolveTile s ps me' (tile_type landed)))
               else Some (resolveTile s (players s) me (tile_type tile))))"

definition animateMove :: "int \<Rightarrow> GameState \<Rightarrow> GameState option" where
  "animateMove steps s =
     (case moveAlong steps s of None \<Rightarrow> None | Some s' \<Rightarrow> resolveLanding s')"

text \<open>\<open>onRoll\<close> with the die result \<open>d\<close> of \<open>rollDice\<close>.\<close>

definition onRoll :: "int \<Rightarrow> GameState \<Rightarrow> GameState option" where
  "onRoll d s =
     (if phase s \<noteq> Playing then Some s
      else if passScreen s then Some s
      else if animating s then Some s
      else if popup s \<noteq> None then Some s
      else animateMove d s)"

subsection \<open>Turn order and popups\<close>

text \<open>
  The remainder operator \<open>%\<close> of JavaScript on integers: the sign follows the dividend,
  and a zero divisor gives \<open>NaN\<close>, which is \<open>None\<close> here.
\<close>

definition js_rem :: "int \<Rightarrow> int \<Rightarrow> int option" where
  "js_rem a b = (if b = 0 then None else Some (sgn a * (\<bar>a\<bar> mod \<bar>b\<bar>)))"

definition advanceTurn :: "GameState \<Rightarrow> GameState option" where
  "advanceTurn s =
     (case js_rem (current s + 1) (int (length (players s))) of
        None \<Rightarrow> None
      | Some c \<Rightarrow> Some (s\<lparr>current := c, passScreen := True, popup := None, lastRoll := None\<rparr>))"

text \<open>
  The state update of a timer popup: a timer labelled with the current player's name is
  put in front of the list. \<open>now\<close> is \<open>nowMs()\<close> and \<open>uuid\<close> is
  \<open>crypto.randomUUID()\<close>.
\<close>

definition startTimer :: "string \<Rightarrow> int \<Rightarrow> int \<Rightarrow> string \<Rightarrow> GameState \<Rightarrow> GameState option" where
  "startTimer prefix duration now uuid s =
     (case at_index (players s) (current s) of
        None \<Rightarrow> None
      | Some p \<Rightarrow>
          Some (s\<lparr>timers := \<lparr>tid = uuid, tlabel = prefix @ pname p, endsAt = now + duration\<rparr>
                             # timers s\<rparr>))"

subsection \<open>Timers\<close>

text \<open>The callback of the five-second interval.\<close>

definition sweepTimers :: "int \<Rightarrow> GameState \<Rightarrow> GameState" where
  "sweepTimers now s = s\<lparr>timers := filter (\<lambda>x. endsAt x > now) (timers s)\<rparr>"

text \<open>The interval exists only while the phase is \<open>playing\<close>.\<close>

definition timerEffectTick :: "int \<Rightarrow> GameState \<Rightarrow> GameState" where
  "timerEffectTick now s = (if phase s \<noteq> Playing then s else sweepTimers now s)"

definition clearTimer :: "string \<Rightarrow> GameState \<Rightarrow> GameState" where
  "clearTimer k s = s\<lparr>timers := filter (\<lambda>t. tid t \<noteq> k) (timers s)\<rparr>"

subsection \<open>The lobby\<close>

text \<open>
  \<open>rnd\<close> stands for the random draw; \<open>Math.floor(Math.random() * n)\<close> is an index
  below \<open>n\<close>.
\<close>

definition pickPlayerColor :: "string list \<Rightarrow> nat \<Rightarrow> string" where
  "pickPlayerColor used rnd =
     (let available = filter (\<lambda>c. c \<notin> set used) PLAYER_COLORS;
          pool = (if available \<noteq> [] then available else PLAYER_COLORS)
      in pool ! (rnd mod length pool))"

text \<open>
  \<open>addPlayer\<close>. The two string built-ins it calls, \<open>String.prototype.trim\<close> and
  \<open>String.prototype.toLowerCase\<close>, are the arguments \<open>trim\<close> and \<open>toLowerCase\<close>:
  the function is modelled for whatever they return, on every name.
\<close>

definition addPlayer ::
  "(string \<Rightarrow> string) \<Rightarrow> (string \<Rightarrow> string) \<Rightarrow> string \<Rightarrow> string \<Rightarrow> nat \<Rightarrow> GameState
     \<Rightarrow> GameState" where
  "addPlayer trim toLowerCase nameRaw uuid rnd s =
     (let name = trim nameRaw in
      if name = [] then s
      else if length (players s) \<ge> MAX_PLAYERS then s
      else if list_ex (\<lambda>p. toLowerCase (pname p) = toLowerCase name) (players s) then s
      else
        (let used = map color (players s);
             c = pickPlayerColor used rnd
         in s\<lparr>players := players s @ [\<lparr>pid = uuid, pname = name, pos = 0, color = c\<rparr>]\<rparr>))"

definition removePlayer :: "string \<Rightarrow> GameState \<Rightarrow> GameState" where
  "removePlayer k s = s\<lparr>players := filter (\<lambda>p. pid p \<noteq> k) (players s)\<rparr>"

definition startGame :: "GameState \<Rightarrow> GameState" where
  "startGame s =
     (if length (players s) < 2 then s
      else s\<lparr>phase := Playing, current := 0, passScreen := True, lastRoll := None,
             popup := None, winnerName := None, animating := False\<rparr>)"

subsection \<open>The saved snapshot\<close>

text \<open>
  The page and its local storage: \<open>store\<close> maps a key to the stored text.
\<close>

definition SAVE_KEY :: string where
  "SAVE_KEY = ''sendy_state_v1''"

record World =
  store :: "string \<rightharpoonup> string"
  game :: GameState

definition clearSaved :: "World \<Rightarrow> World" where
  "clearSaved w = w\<lparr>store := (store w)(SAVE_KEY := None)\<rparr>"

definition newGame :: "World \<Rightarrow> World" where
  "newGame w = (clearSaved w)\<lparr>game := initialState\<rparr>"

text \<open>The click handler of the BACK TO LOBBY button.\<close>

definition backToLobby :: "World \<Rightarrow> World" where
  "backToLobby w =
     (clearSaved w)\<lparr>game := (game w)\<lparr>phase := Lobby, passScreen := False, popup := None,
                                     winnerName := None\<rparr>\<rparr>"

definition handlePopupPress :: "int \<Rightarrow> string \<Rightarrow> World \<Rightarrow> World option" where
  "handlePopupPress now uuid w =
     (case popup (game w) of
        None \<Rightarrow> Some w
      | Some p \<Rightarrow>
          if phase (game w) = Finished then Some (newGame w)
          else if action p = StartSnapTimer then
            (case startTimer ''SNAP: '' (10 * 60 * 1000) now uuid (game w) of
               None \<Rightarrow> None
             | Some g \<Rightarrow> map_option (\<lambda>g'. w\<lparr>game := g'\<rparr>) (advanceTurn g))
          else if action p = StartTikTokTimer then
            (case startTimer ''TIKTOK: '' (60 * 60 * 1000) now uuid (game w) of
               None \<Rightarrow> None
             | Some g \<Rightarrow> map_option (\<lambda>g'. w\<lparr>game := g'\<rparr>) (advanceTurn g))
          else map_option (\<lambda>g'. w\<lparr>game := g'\<rparr>) (advanceTurn (game w)))"

text \<open>
  What \<open>JSON.parse\<close> returns: a JSON value. An object is the list of its entries.
\<close>

datatype json =
  JNull | JBool bool | JNum int | JStr string | JArr "json list"
  | JObj "(string \<times> json) list"

datatype js_error = TypeError | SyntaxError | SecurityError

definition truthy :: "json \<Rightarrow> bool" where
  "truthy v =
     (case v of JNull \<Rightarrow> False | JBool b \<Rightarrow> b | JNum n \<Rightarrow> n \<noteq> 0 | JStr t \<Rightarrow> t \<noteq> []
      | JArr _ \<Rightarrow> True | JObj _ \<Rightarrow> True)"

text \<open>
  Reading a property: \<open>undefined\<close> is \<open>None\<close>; reading a property of \<open>null\<close> raises.
  Numbers, booleans, strings and arrays have no property named \<open>board\<close> or
  \<open>players\<close>.
\<close>

definition get_prop :: "json \<Rightarrow> string \<Rightarrow> js_error + json option" where
  "get_prop v k =
     (case v of JNull \<Rightarrow> Inl TypeError | JObj kvs \<Rightarrow> Inr (map_of kvs k) | _ \<Rightarrow> Inr None)"

definition falsy_prop :: "json option \<Rightarrow> bool" where
  "falsy_prop r = (case r of None \<Rightarrow> True | Some v \<Rightarrow> \<not> truthy v)"

text \<open>
  The body of the \<open>try\<close> block of \<open>loadState\<close>. \<open>item\<close> is what
  \<open>localStorage.getItem\<close> does (it may raise, return \<open>null\<close> or return the text) and
  \<open>parse\<close> is \<open>JSON.parse\<close>, which raises a \<open>SyntaxError\<close> on text that is not JSON.
\<close>

definition loadState_try ::
  "(string \<Rightarrow> js_error + json) \<Rightarrow> js_error + string option \<Rightarrow> js_error + json option" where
  "loadState_try parse item =
     (case item of
        Inl e \<Rightarrow> Inl e
      | Inr None \<Rightarrow> Inr None
      | Inr (Some raw) \<Rightarrow>
          if raw = [] then Inr None
          else
            (case parse raw of
               Inl e \<Rightarrow> Inl e
             | Inr parsed \<Rightarrow>
                 if \<not> truthy parsed then Inr None
                 else
                   (case get_prop parsed ''board'' of
                      Inl e \<Rightarrow> Inl e
                    | Inr b \<Rightarrow>
                        if falsy_prop b then Inr None
                        else
                          (case get_prop parsed ''players'' of
                             Inl e \<Rightarrow> Inl e
                           | Inr ps \<Rightarrow>
                               if falsy_prop ps then Inr None else Inr (Some parsed)))))"

text \<open>\<open>loadState\<close>: whatever the body raises is caught and becomes \<open>null\<close>.\<close>

definition loadState ::
  "(string \<Rightarrow> js_error + json) \<Rightarrow> js_error + string option \<Rightarrow> js_error + json option" where
  "loadState parse item =
     (case loadState_try parse item of Inl e \<Rightarrow> Inr None | Inr r \<Rightarrow> Inr r)"

definition getItem :: "World \<Rightarrow> js_error + string option" where
  "getItem w = Inr (store w SAVE_KEY)"

subsection \<open>Observations and sample states\<close>

text \<open>The position of the player whose turn it is, and the tile text a popup shows.\<close>

definition current_pos :: "GameState \<Rightarrow> int option" where
  "current_pos s = map_option pos (at_index (players s) (current s))"

definition shown_text :: "GameState \<Rightarrow> TileType option" where
  "shown_text s = map_option popup_text (popup s)"

definition amy :: "int \<Rightarrow> Player" where
  "amy p = \<lparr>pid = ''id-1'', pname = ''Amy'', pos = p, color = ''#FF3B30''\<rparr>"

definition bob :: Player where
  "bob = \<lparr>pid = ''id-2'', pname = ''Bob'', pos = 0, color = ''#FF9500''\<rparr>"

text \<open>A running game of Amy and Bob on the built board; it is Amy's turn.\<close>

definition game_at :: "int \<Rightarrow> GameState" where
  "game_at p = initialState\<lparr>phase := Playing, players := [amy p, bob]\<rparr>"

text \<open>The same game on a board where tile 17 is a second BACK 5 tile.\<close>

definition chained_game :: GameState where
  "chained_game = (game_at 17)\<lparr>board := set_tile 17 Back5 ''BACK 5'' buildBoard\<rparr>"

definition expired_game :: GameState where
  "expired_game =
     (game_at 10)\<lparr>timers := [\<lparr>tid = ''t-1'', tlabel = ''SNAP: Amy'', endsAt = 100\<rparr>]\<rparr>"

definition snap_world :: World where
  "snap_world =
     \<lparr>store = Map.empty,
      game = (game_at 10)\<lparr>popup := Some (popupFor Snap ''START 10:00 TIMER'' StartSnapTimer)\<rparr>\<rparr>"

text \<open>Bob has landed on the DARE tile 8 and its popup is open.\<close>

definition dare_world :: World where
  "dare_world =
     \<lparr>store = Map.empty,
      game = (game_at 3)\<lparr>players := [amy 3, bob\<lparr>pos := 8\<rparr>], current := 1,
               popup := Some (popupFor Dare ''CONTINUE'' Continue)\<rparr>\<rparr>"

definition won_world :: World where
  "won_world =
     \<lparr>store = [SAVE_KEY \<mapsto> ''{}''],
      game = (game_at 34)\<lparr>phase := Finished, winnerName := Some ''Amy'',
               popup := Some (popupFor Win ''NEW GAME'' Continue)\<rparr>\<rparr>"

definition full_lobby :: GameState where
  "full_lobby =
     initialState\<lparr>players :=
       map (\<lambda>k. \<lparr>pid = ''id-'' @ string_of_nat k, pname = ''P'' @ string_of_nat k, pos = 0,
                  color = PLAYER_COLORS ! k\<rparr>) [0..<16]\<rparr>"

definition amy_lobby :: GameState where
  "amy_lobby =
     initialState\<lparr>players := [\<lparr>pid = ''id-1'', pname = ''amy'', pos = 0, color = ''#FF3B30''\<rparr>]\<rparr>"

text \<open>
  Sample arguments for the two string built-ins of \<open>addPlayer\<close>: what \<open>trim\<close> and
  \<open>toLowerCase\<close> do on text made of ASCII characters only (the white space characters
  there are tab, line feed, vertical tab, form feed, carriage return and space, and the
  letters A to Z are lowered). They say nothing about other text and are used on the
  ASCII sample names only.
\<close>

definition ascii_ws :: "char \<Rightarrow> bool" where
  "ascii_ws c = (of_char c \<in> {9, 10, 11, 12, 13, 32 :: nat})"

definition ascii_trim :: "string \<Rightarrow> string" where
  "ascii_trim s = rev (dropWhile ascii_ws (rev (dropWhile ascii_ws s)))"

definition ascii_lower_char :: "char \<Rightarrow> char" where
  "ascii_lower_char c =
     (case map_of (zip ''ABCDEFGHIJKLMNOPQRSTUVWXYZ'' ''abcdefghijklmnopqrstuvwxyz'') c of
        None \<Rightarrow> c
      | Some l \<Rightarrow> l)"

definition ascii_lower :: "string \<Rightarrow> string" where
  "ascii_lower s = map ascii_lower_char s"

text \<open>
  A stand-in for \<open>JSON.parse\<close> that knows four texts and takes every other text as
  unparsable.
\<close>

definition sample_parse :: "string \<Rightarrow> js_error + json" where
  "sample_parse raw =
     (if raw = ''{\"board\":[1],\"players\":[]}'' then
        Inr (JObj [(''board'', JArr [JNum 1]), (''players'', JArr [])])
      else if raw = ''{\"players\":[]}'' then Inr (JObj [(''players'', JArr [])])
      else if raw = ''{}'' then Inr (JObj [])
      else if raw = ''null'' then Inr JNull
      else Inl SyntaxError)"

section \<open>Properties\<close>

subsection \<open>The board\<close>

lemma WIN_INDEX_34: "WIN_INDEX = 34"
  by (simp add: WIN_INDEX_def TILE_COUNT_def COLS_def ROWS_def)

lemma buildBoard_types:
  "map tile_type buildBoard =
     [Start, Safe, Sip3, Path, Sip5, Path, Sip2, Sip3, Dare, Sip10, Snap, Sip3,
      Back5, Tiktok, Safe, Sip3, Sip10, Snap, Sip3, Sip5, Chug10s, Sip3, Sip2,
      Path, Shotgun, Sip5, Chug10s, Tiktok, Sip5, Safe, Sip3, Path, Finish,
      Finish, Win]"
  by (simp add: buildBoard_def set_each_def set_tile_def blank_board_def TILE_COUNT_def
      COLS_def ROWS_def WIN_INDEX_def upt_conv_Cons)

lemma length_buildBoard: "length buildBoard = 35"
  using arg_cong [OF buildBoard_types, of length] by simp

lemma buildBoard_scan:
  "list_all (\<lambda>k. (map tile_type buildBoard ! nat k = Win \<longleftrightarrow> k = 34) \<and>
                  (map tile_type buildBoard ! nat k = Back5 \<longleftrightarrow> k = 12) \<and>
                  (k = 7 \<longrightarrow> map tile_type buildBoard ! nat k = Sip3)) [0..34]"
  by code_simp

lemma buildBoard_type_at:
  assumes "at_index buildBoard k = Some tile"
  shows "(tile_type tile = Win \<longleftrightarrow> k = 34) \<and> (tile_type tile = Back5 \<longleftrightarrow> k = 12) \<and>
         (k = 7 \<longrightarrow> tile_type tile = Sip3)"
proof -
  from assms have k: "0 \<le> k" "k < 35" and t: "tile = buildBoard ! nat k"
    by (auto simp: at_index_def length_buildBoard split: if_splits)
  have n: "nat k < 35" using k by simp
  have tt: "tile_type tile = map tile_type buildBoard ! nat k"
    using t n by (simp add: length_buildBoard)
  have "k \<in> set [0..34]" using k by simp
  with buildBoard_scan show ?thesis
    unfolding tt list_all_iff by blast
qed

lemma buildBoard_at_Some: "0 \<le> k \<Longrightarrow> k \<le> 34 \<Longrightarrow> \<exists>tile. at_index buildBoard k = Some tile"
  by (simp add: at_index_def length_buildBoard)

lemma buildBoard_12: "map_option tile_type (at_index buildBoard 12) = Some Back5"
  using buildBoard_at_Some [of 12] buildBoard_type_at [of 12] by auto

lemma game_at_fields:
  "players (game_at p) = [amy p, bob]" "current (game_at p) = 0"
  "board (game_at p) = buildBoard" "phase (game_at p) = Playing"
  "popup (game_at p) = None" "timers (game_at p) = []" "winnerName (game_at p) = None"
  by (simp_all add: game_at_def initialState_def)

subsection \<open>Array reads\<close>

lemma at_index_update:
  "at_index xs k = Some x \<Longrightarrow> at_index (xs[nat k := y]) k = Some y"
  by (auto simp: at_index_def split: if_splits)

lemma at_index_range: "at_index xs k = Some x \<Longrightarrow> 0 \<le> k \<and> k < int (length xs)"
  by (simp add: at_index_def split: if_splits)

lemma at_index_0: "at_index (x # xs) 0 = Some x"
  by (simp add: at_index_def)

lemma game_at_me: "at_index (players (game_at p)) (current (game_at p)) = Some (amy p)"
  by (simp add: game_at_fields at_index_0)

subsection \<open>Movement\<close>

lemma last_upto: "i \<le> j \<Longrightarrow> last [i..j] = j"
  by (simp add: upto_rec2)

text \<open>The walk ends with the current player on the last position of the path.\<close>

lemma walk_last:
  "at_index (players s) (current s) = Some me \<Longrightarrow> path \<noteq> [] \<Longrightarrow>
   walk steps path s =
     Some (s\<lparr>players := (players s)[nat (current s) := me\<lparr>pos := last path\<rparr>],
             lastRoll := Some steps\<rparr>)"
proof (induction path arbitrary: s me)
  case Nil
  then show ?case by simp
next
  case (Cons p ps)
  let ?s1 = "s\<lparr>players := (players s)[nat (current s) := me\<lparr>pos := p\<rparr>],
                lastRoll := Some steps\<rparr>"
  have st: "stepTo steps p s = Some ?s1"
    using Cons.prems(1) by (simp add: stepTo_def)
  show ?case
  proof (cases "ps = []")
    case True
    with st show ?thesis by simp
  next
    case False
    have idx: "at_index (players ?s1) (current ?s1) = Some (me\<lparr>pos := p\<rparr>)"
      using Cons.prems(1) by (simp add: at_index_update)
    from Cons.IH [OF idx False] st False show ?thesis by simp
  qed
qed

lemma movePath_last:
  assumes "1 \<le> steps"
  shows "movePath start steps \<noteq> [] \<and>
         last (movePath start steps) =
           (if start + steps \<le> 34 then start + steps else 34 - (start + steps - 34))"
proof (cases "start + steps \<le> 34")
  case True
  with assms show ?thesis
    by (simp add: movePath_def WIN_INDEX_34 last_upto)
next
  case False
  then have o: "1 \<le> start + steps - 34" by simp
  have ne: "[1..start + steps - 34] \<noteq> []" using o by simp
  have "last (map (\<lambda>b. 34 - b) [1..start + steps - 34]) = 34 - (start + steps - 34)"
    using ne o by (simp add: last_map last_upto)
  with False ne show ?thesis
    by (simp add: movePath_def WIN_INDEX_34 Let_def)
qed

lemma moveAlong_result:
  assumes me: "at_index (players s) (current s) = Some me" and d: "1 \<le> steps"
  shows "moveAlong steps s =
           Some (s\<lparr>players := (players s)[nat (current s) :=
                      me\<lparr>pos := (if pos me + steps \<le> 34 then pos me + steps
                                  else 34 - (pos me + steps - 34))\<rparr>],
                   lastRoll := Some steps, animating := True\<rparr>)"
proof -
  let ?s0 = "s\<lparr>animating := True\<rparr>"
  from movePath_last [OF d, of "pos me"]
  have ne: "movePath (pos me) steps \<noteq> []"
    and l: "last (movePath (pos me) steps) =
              (if pos me + steps \<le> 34 then pos me + steps else 34 - (pos me + steps - 34))"
    by simp_all
  have me0: "at_index (players ?s0) (current ?s0) = Some me" using me by simp
  show ?thesis
    using walk_last [OF me0 ne, of steps] me l by (simp add: moveAlong_def)
qed

text \<open>
  Claim C1. For a player at a position \<open>p\<close> between 0 and 34 and a die result between 1
  and 6, the movement of the roll (the part of \<open>animateMove\<close> before the landing is
  resolved) leaves the player at \<open>p + steps\<close> when that is at most 34 and otherwise at
  \<open>34 - ((p + steps) - 34)\<close>, clamped to at least 0; the position is within 0 and 34.
  Nobody else moves.
\<close>

theorem roll_moves_token:
  assumes me: "at_index (players s) (current s) = Some me"
    and p: "0 \<le> pos me" "pos me \<le> 34"
    and d: "1 \<le> steps" "steps \<le> 6"
  shows "\<exists>t. t = (if pos me + steps \<le> 34 then pos me + steps
                  else max 0 (34 - (pos me + steps - 34))) \<and>
           moveAlong steps s =
             Some (s\<lparr>players := (players s)[nat (current s) := me\<lparr>pos := t\<rparr>],
                     lastRoll := Some steps, animating := True\<rparr>) \<and>
           0 \<le> t \<and> t \<le> 34"
proof -
  let ?t = "if pos me + steps \<le> 34 then pos me + steps else 34 - (pos me + steps - 34)"
  have "?t = (if pos me + steps \<le> 34 then pos me + steps
              else max 0 (34 - (pos me + steps - 34)))"
    using p d by auto
  moreover have "0 \<le> ?t \<and> ?t \<le> 34"
    using p d by auto
  ultimately show ?thesis
    using moveAlong_result [OF me d(1)] by simp
qed

theorem roll_moves_token_witness:
  "moveAlong 6 (game_at 30) =
     Some ((game_at 30)\<lparr>players := [amy 32, bob], lastRoll := Some 6, animating := True\<rparr>) \<and>
   moveAlong 4 (game_at 3) =
     Some ((game_at 3)\<lparr>players := [amy 7, bob], lastRoll := Some 4, animating := True\<rparr>)"
proof -
  have a: "0 \<le> pos (amy 30)" "pos (amy 30) \<le> 34" "0 \<le> pos (amy 3)" "pos (amy 3) \<le> 34"
    by (simp_all add: amy_def)
  have d: "(1::int) \<le> 6" "(6::int) \<le> 6" "(1::int) \<le> 4" "(4::int) \<le> 6" by simp_all
  from roll_moves_token [OF game_at_me a(1,2) d(1,2)]
    roll_moves_token [OF game_at_me a(3,4) d(3,4)]
  show ?thesis by (simp add: game_at_fields amy_def)
qed

subsection \<open>Landing\<close>

lemma resolveTile_fields:
  "players (resolveTile s ps me t) = ps"
  "current (resolveTile s ps me t) = current s"
  "board (resolveTile s ps me t) = board s"
  "timers (resolveTile s ps me t) = timers s"
  "phase (resolveTile s ps me t) = (if t = Win then Finished else phase s)"
  "winnerName (resolveTile s ps me t) = (if t = Win then Some (pname me) else winnerName s)"
  "map_option popup_text (popup (resolveTile s ps me t)) = Some t"
  by (simp_all add: resolveTile_def popupFor_def)

lemma clamp_back: "p \<le> 34 \<Longrightarrow> clamp (p - 5) 0 WIN_INDEX = max 0 (p - 5)"
  by (simp add: clamp_def WIN_INDEX_34)

text \<open>
  Claim C2. On the built board, a roll (position between 0 and 34, die between 1 and 6)
  that ends with the player on 34 sets the phase to finished and the winner's name to the
  current player's name, and a roll that reaches 34 exactly does end there. A roll with
  position + steps above 34 ends strictly below 34 and leaves phase and winner as they
  were: an overshoot never wins.
\<close>

theorem exact_landing_wins:
  assumes b: "board s = buildBoard"
    and me: "at_index (players s) (current s) = Some me"
    and p: "0 \<le> pos me" "pos me \<le> 34"
    and d: "1 \<le> steps" "steps \<le> 6"
  shows "\<exists>s' me'. animateMove steps s = Some s' \<and>
           at_index (players s') (current s') = Some me' \<and>
           (pos me + steps = 34 \<longrightarrow> pos me' = 34) \<and>
           (pos me' = 34 \<longrightarrow> phase s' = Finished \<and> winnerName s' = Some (pname me)) \<and>
           (pos me + steps > 34 \<longrightarrow>
              pos me' < 34 \<and> phase s' = phase s \<and> winnerName s' = winnerName s)"
proof -
  let ?t = "if pos me + steps \<le> 34 then pos me + steps else 34 - (pos me + steps - 34)"
  let ?me1 = "me\<lparr>pos := ?t\<rparr>"
  let ?s1 = "s\<lparr>players := (players s)[nat (current s) := ?me1],
               lastRoll := Some steps, animating := True\<rparr>"
  have mv: "moveAlong steps s = Some ?s1" by (rule moveAlong_result [OF me d(1)])
  have r: "0 \<le> ?t" "?t \<le> 34" using p d by auto
  have me1: "at_index (players ?s1) (current ?s1) = Some ?me1"
    using me by (simp add: at_index_update)
  from buildBoard_at_Some [OF r] obtain tile where tile: "at_index buildBoard ?t = Some tile"
    by blast
  note ty = buildBoard_type_at [OF tile]
  show ?thesis
  proof (cases "tile_type tile = Back5")
    case True
    with ty have t12: "?t = 12" by simp
    then have sum12: "pos me + steps = 12" using p d by (auto split: if_splits)
    from buildBoard_at_Some [of 7] obtain landed where landed: "at_index buildBoard 7 = Some landed"
      by auto
    from buildBoard_type_at [OF landed] have l3: "tile_type landed = Sip3" by simp
    let ?me2 = "?me1\<lparr>pos := 7\<rparr>"
    let ?ps2 = "(players ?s1)[nat (current ?s1) := ?me2]"
    have "resolveLanding ?s1 = Some (resolveTile ?s1 ?ps2 ?me2 Sip3)"
      using me1 tile True t12 landed l3 b
      by (simp add: resolveLanding_def clamp_def WIN_INDEX_34 Let_def)
    moreover have "at_index ?ps2 (current ?s1) = Some ?me2"
      using at_index_update [OF me] by simp
    ultimately show ?thesis
      using mv sum12 by (simp add: animateMove_def resolveTile_fields)
  next
    case False
    then have rl: "resolveLanding ?s1 = Some (resolveTile ?s1 (players ?s1) ?me1 (tile_type tile))"
      using me1 tile b by (simp add: resolveLanding_def)
    have w: "tile_type tile = Win \<longleftrightarrow> ?t = 34" using ty by simp
    have ex: "pos me + steps = 34 \<Longrightarrow> ?t = 34" by simp
    have ov: "pos me + steps > 34 \<Longrightarrow> ?t < 34" by simp
    show ?thesis
      using mv rl me1 w ex ov
      by (auto simp add: animateMove_def resolveTile_fields)
  qed
qed

theorem exact_landing_wins_witness:
  "Option.bind (animateMove 1 (game_at 33)) current_pos = Some 34 \<and>
   map_option phase (animateMove 1 (game_at 33)) = Some Finished \<and>
   Option.bind (animateMove 1 (game_at 33)) winnerName = Some ''Amy'' \<and>
   map_option phase (animateMove 6 (game_at 30)) = Some Playing \<and>
   Option.bind (animateMove 6 (game_at 30)) winnerName = None"
proof -
  have b: "board (game_at 33) = buildBoard" "board (game_at 30) = buildBoard"
    by (simp_all add: game_at_fields)
  have a: "0 \<le> pos (amy 33)" "pos (amy 33) \<le> 34" "0 \<le> pos (amy 30)" "pos (amy 30) \<le> 34"
    by (simp_all add: amy_def)
  have d: "(1::int) \<le> 1" "(1::int) \<le> 6" "(1::int) \<le> 6" "(6::int) \<le> 6" by simp_all
  from exact_landing_wins [OF b(1) game_at_me a(1,2) d(1,2)]
  obtain s1 m1 where 1: "animateMove 1 (game_at 33) = Some s1"
    "at_index (players s1) (current s1) = Some m1" "pos m1 = 34"
    "phase s1 = Finished" "winnerName s1 = Some ''Amy''"
    by (auto simp: amy_def)
  from exact_landing_wins [OF b(2) game_at_me a(3,4) d(3,4)]
  obtain s2 where 2: "animateMove 6 (game_at 30) = Some s2"
    "phase s2 = Playing" "winnerName s2 = None"
    by (auto simp: amy_def game_at_fields)
  from 1 2 show ?thesis by (simp add: current_pos_def)
qed

text \<open>
  On a board with two chained BACK 5 tiles (17 and 12) the player who lands on 17 is moved
  to 12 and stays there, and the popup shown is the BACK 5 one; tile 7 is not resolved.
\<close>

theorem chained_back5_counterexample:
  "Option.bind (resolveLanding chained_game) current_pos = Some 12 \<and>
   Option.bind (resolveLanding chained_game) shown_text = Some Back5 \<and>
   map_option tile_type (at_index (board chained_game) 17) = Some Back5 \<and>
   map_option tile_type (at_index (board chained_game) 12) = Some Back5 \<and>
   map_option tile_type (at_index (board chained_game) 7) = Some Sip3"
  by code_simp

text \<open>
  Claim C3, amended. Landing on a BACK 5 tile (position at most 34) recomputes the
  player's position as \<open>max 0 (position - 5)\<close> and then resolves the tile now occupied,
  once: when that tile is not itself a BACK 5 tile, the result is that tile's resolution
  and the popup is that tile's, not the BACK 5 one. On the built board the only BACK 5
  tile is 12 and the tile five back, 7, is a 3-sips tile.
\<close>

theorem back5_resolves_destination:
  assumes me: "at_index (players s) (current s) = Some me"
    and r: "pos me \<le> 34"
    and tile: "at_index (board s) (pos me) = Some tile"
    and b5: "tile_type tile = Back5"
  shows "\<exists>landed. at_index (board s) (max 0 (pos me - 5)) = Some landed \<and>
           (board s = buildBoard \<longrightarrow> pos me = 12 \<and> tile_type landed = Sip3) \<and>
           (tile_type landed \<noteq> Back5 \<longrightarrow>
              resolveLanding s =
                Some (resolveTile s ((players s)[nat (current s) := me\<lparr>pos := max 0 (pos me - 5)\<rparr>])
                        (me\<lparr>pos := max 0 (pos me - 5)\<rparr>) (tile_type landed)) \<and>
              Option.bind (resolveLanding s) current_pos = Some (max 0 (pos me - 5)) \<and>
              Option.bind (resolveLanding s) shown_text = Some (tile_type landed))"
proof -
  let ?d = "max 0 (pos me - 5)"
  let ?me' = "me\<lparr>pos := ?d\<rparr>"
  let ?ps = "(players s)[nat (current s) := ?me']"
  from tile have rng: "0 \<le> pos me" "pos me < int (length (board s))"
    by (auto simp: at_index_def split: if_splits)
  then have "0 \<le> ?d" "?d < int (length (board s))" by auto
  then obtain landed where landed: "at_index (board s) ?d = Some landed"
    by (auto simp: at_index_def)
  have cl: "clamp (pos me - 5) 0 WIN_INDEX = ?d" using r by (rule clamp_back)
  have rl: "resolveLanding s = Some (resolveTile s ?ps ?me' (tile_type landed))"
    using me tile b5 landed cl by (simp add: resolveLanding_def Let_def del: max_def)
  have cp: "current_pos (resolveTile s ?ps ?me' (tile_type landed)) = Some ?d"
    using at_index_update [OF me, of ?me']
    by (simp add: current_pos_def resolveTile_fields del: max_def)
  have st: "shown_text (resolveTile s ?ps ?me' (tile_type landed)) = Some (tile_type landed)"
    by (simp add: shown_text_def resolveTile_fields)
  have bb: "pos me = 12 \<and> tile_type landed = Sip3" if b: "board s = buildBoard"
  proof -
    from buildBoard_type_at [of "pos me" tile] tile b5 b have p12: "pos me = 12" by simp
    with landed b have "at_index buildBoard 7 = Some landed" by simp
    from buildBoard_type_at [OF this] p12 show ?thesis by simp
  qed
  show ?thesis
    using landed rl cp st bb by (auto simp del: max_def)
qed

theorem back5_resolves_destination_witness:
  "Option.bind (resolveLanding (game_at 12)) current_pos = Some 7 \<and>
   Option.bind (resolveLanding (game_at 12)) shown_text = Some Sip3"
proof -
  from buildBoard_12 obtain tile where t: "at_index buildBoard 12 = Some tile"
    and b: "tile_type tile = Back5" by auto
  have r: "pos (amy 12) \<le> 34" by (simp add: amy_def)
  have tl: "at_index (board (game_at 12)) (pos (amy 12)) = Some tile"
    using t by (simp add: game_at_fields amy_def)
  from back5_resolves_destination [OF game_at_me r tl b]
  show ?thesis by (auto simp: game_at_fields amy_def)
qed

subsection \<open>Timers\<close>

text \<open>
  A timer that expired at 100 is gone after the tick of the interval at 200; nobody
  cleared it.
\<close>

theorem expired_timer_swept_counterexample:
  "phase expired_game = Playing \<and> map endsAt (timers expired_game) = [100] \<and>
   timers (timerEffectTick 200 expired_game) = []"
  by (simp add: expired_game_def timerEffectTick_def sweepTimers_def game_at_def initialState_def)

text \<open>
  Claim C4, amended. While the phase is playing, each tick of the periodic sweep removes
  from the timer list exactly the timers whose \<open>endsAt\<close> is not later than the current
  time and keeps the others in their order; outside the playing phase the list is left
  alone. So an expired timer stays in the list only until the next sweep. The explicit
  clear removes exactly the timers with the given id, expired or not.
\<close>

theorem sweep_removes_expired:
  "timers (timerEffectTick now s) =
     (if phase s = Playing then filter (\<lambda>t. now < endsAt t) (timers s) else timers s) \<and>
   (phase s = Playing \<longrightarrow>
      (\<forall>t. t \<in> set (timers (timerEffectTick now s)) \<longleftrightarrow> t \<in> set (timers s) \<and> now < endsAt t)) \<and>
   (\<forall>t. t \<in> set (timers (clearTimer k s)) \<longleftrightarrow> t \<in> set (timers s) \<and> tid t \<noteq> k)"
  by (auto simp: timerEffectTick_def sweepTimers_def clearTimer_def)

theorem sweep_removes_expired_witness:
  "timers (timerEffectTick 50 expired_game) = timers expired_game \<and>
   timers (timerEffectTick 100 expired_game) = [] \<and>
   timers (clearTimer ''t-1'' expired_game) = []"
  using sweep_removes_expired [of 50 expired_game "''t-1''"]
    sweep_removes_expired [of 100 expired_game "''t-1''"]
  by (simp add: expired_game_def game_at_def initialState_def clearTimer_def)

subsection \<open>Confirming a popup\<close>

lemma js_rem_nonneg: "0 \<le> a \<Longrightarrow> 0 < b \<Longrightarrow> js_rem a b = Some (a mod b)"
  by (simp add: js_rem_def sgn_if)

lemma advanceTurn_valid:
  assumes "0 \<le> current s" "current s < int (length (players s))"
  shows "advanceTurn s =
           Some (s\<lparr>current := (current s + 1) mod int (length (players s)),
                   passScreen := True, popup := None, lastRoll := None\<rparr>)"
proof -
  have "js_rem (current s + 1) (int (length (players s))) =
          Some ((current s + 1) mod int (length (players s)))"
    using assms by (intro js_rem_nonneg) linarith+
  then show ?thesis by (simp add: advanceTurn_def)
qed

lemma press_timer:
  assumes pp: "popup (game w) = Some p"
    and nf: "phase (game w) \<noteq> Finished"
    and a: "action p = StartSnapTimer \<or> action p = StartTikTokTimer"
    and me: "at_index (players (game w)) (current (game w)) = Some me"
  shows "handlePopupPress now uuid w =
           Some (w\<lparr>game := (game w)
             \<lparr>timers := \<lparr>tid = uuid,
                          tlabel = (if action p = StartSnapTimer then ''SNAP: '' else ''TIKTOK: '')
                                   @ pname me,
                          endsAt = now + (if action p = StartSnapTimer then 600000 else 3600000)\<rparr>
                        # timers (game w),
              current := (current (game w) + 1) mod int (length (players (game w))),
              passScreen := True, popup := None, lastRoll := None\<rparr>\<rparr>)"
proof -
  note rg = at_index_range [OF me]
  show ?thesis
  proof (cases "action p = StartSnapTimer")
    case True
    let ?g = "(game w)\<lparr>timers := \<lparr>tid = uuid, tlabel = ''SNAP: '' @ pname me,
                 endsAt = now + 10 * 60 * 1000\<rparr> # timers (game w)\<rparr>"
    have st: "startTimer ''SNAP: '' (10 * 60 * 1000) now uuid (game w) = Some ?g"
      using me by (simp add: startTimer_def)
    have "advanceTurn ?g = Some (?g\<lparr>current := (current ?g + 1) mod int (length (players ?g)),
                   passScreen := True, popup := None, lastRoll := None\<rparr>)"
      using rg by (intro advanceTurn_valid) simp_all
    with st pp nf True show ?thesis
      by (simp add: handlePopupPress_def)
  next
    case False
    with a have tk: "action p = StartTikTokTimer" by simp
    let ?g = "(game w)\<lparr>timers := \<lparr>tid = uuid, tlabel = ''TIKTOK: '' @ pname me,
                 endsAt = now + 60 * 60 * 1000\<rparr> # timers (game w)\<rparr>"
    have st: "startTimer ''TIKTOK: '' (60 * 60 * 1000) now uuid (game w) = Some ?g"
      using me by (simp add: startTimer_def)
    have "advanceTurn ?g = Some (?g\<lparr>current := (current ?g + 1) mod int (length (players ?g)),
                   passScreen := True, popup := None, lastRoll := None\<rparr>)"
      using rg by (intro advanceTurn_valid) simp_all
    with st pp nf tk show ?thesis
      by (simp add: handlePopupPress_def)
  qed
qed

lemma press_continue:
  assumes pp: "popup (game w) = Some p"
    and nf: "phase (game w) \<noteq> Finished"
    and a: "action p = Continue"
    and rg: "0 \<le> current (game w)" "current (game w) < int (length (players (game w)))"
  shows "handlePopupPress now uuid w =
           Some (w\<lparr>game := (game w)
             \<lparr>current := (current (game w) + 1) mod int (length (players (game w))),
              passScreen := True, popup := None, lastRoll := None\<rparr>\<rparr>)"
  using pp nf a advanceTurn_valid [OF rg] by (simp add: handlePopupPress_def)

text \<open>
  A roll that opens a popup with a timer action happens in the playing phase and leaves
  the phase alone, so such a popup is never confirmed in a finished game.
\<close>

lemma onRoll_timer_popup:
  assumes "onRoll d s = Some s'" and "popup s = None"
    and "popup s' = Some p" and "action p \<noteq> Continue"
  shows "phase s' = Playing"
proof -
  from assms(2,3) have ne: "s' \<noteq> s" by auto
  with assms(1) have ph: "phase s = Playing" and am: "animateMove d s = Some s'"
    by (auto simp: onRoll_def split: if_splits)
  from am obtain s1 where mv: "moveAlong d s = Some s1" and rl: "resolveLanding s1 = Some s'"
    by (auto simp: animateMove_def split: option.splits)
  have walk_phase: "walk d path u = Some v \<Longrightarrow> phase v = phase u" for path u v
    by (induction path arbitrary: u) (auto simp: stepTo_def split: option.splits)
  from mv have p1: "phase s1 = Playing"
    using ph by (auto simp: moveAlong_def split: option.splits dest: walk_phase)
  from rl obtain ps me t where s': "s' = resolveTile s1 ps me t"
    by (auto simp: resolveLanding_def Let_def split: option.splits if_splits)
  have "t \<noteq> Win"
    using assms(3,4) unfolding s' by (auto simp: resolveTile_def popupFor_def)
  then show ?thesis using p1 unfolding s' by (simp add: resolveTile_fields)
qed

text \<open>
  Claim C5. Confirming a popup whose action starts a timer, in a game that is not
  finished and whose current player exists, adds exactly one timer, with
  \<open>endsAt = now + 600000\<close> for the snap action and \<open>now + 3600000\<close> for the tiktok
  action, and advances the turn to the next player.
\<close>

theorem timer_popup_starts_timer:
  assumes pp: "popup (game w) = Some p"
    and nf: "phase (game w) \<noteq> Finished"
    and a: "action p = StartSnapTimer \<or> action p = StartTikTokTimer"
    and me: "at_index (players (game w)) (current (game w)) = Some me"
  shows "\<exists>w' t. handlePopupPress now uuid w = Some w' \<and>
           timers (game w') = t # timers (game w) \<and>
           tid t = uuid \<and>
           endsAt t = now + (if action p = StartSnapTimer then 600000 else 3600000) \<and>
           current (game w') = (current (game w) + 1) mod int (length (players (game w))) \<and>
           passScreen (game w') \<and> popup (game w') = None \<and>
           players (game w') = players (game w) \<and> phase (game w') = phase (game w)"
  using press_timer [OF pp nf a me, of now uuid] by simp

theorem timer_popup_starts_timer_witness:
  "map_option (map endsAt \<circ> timers \<circ> game) (handlePopupPress 1000 ''t-9'' snap_world) =
     Some [601000] \<and>
   map_option (current \<circ> game) (handlePopupPress 1000 ''t-9'' snap_world) = Some 1"
proof -
  let ?p = "popupFor Snap ''START 10:00 TIMER'' StartSnapTimer"
  have pp: "popup (game snap_world) = Some ?p" by (simp add: snap_world_def)
  have nf: "phase (game snap_world) \<noteq> Finished" by (simp add: snap_world_def game_at_fields)
  have a: "action ?p = StartSnapTimer \<or> action ?p = StartTikTokTimer"
    by (simp add: popupFor_def)
  have me: "at_index (players (game snap_world)) (current (game snap_world)) = Some (amy 10)"
    using game_at_me [of 10] by (simp add: snap_world_def)
  have g: "timers (game snap_world) = []" "current (game snap_world) = 0"
    "length (players (game snap_world)) = 2"
    by (simp_all add: snap_world_def game_at_fields)
  from timer_popup_starts_timer [OF pp nf a me, of 1000 "''t-9''"] g
  show ?thesis by (auto simp: popupFor_def)
qed

text \<open>
  Claim C6. For every popup confirmed while the game is not finished, with at least two
  players and a valid current index, the new current index is (old index + 1) mod
  playerCount, the popup is cleared and the pass screen for the next player is pending.
\<close>

theorem acknowledgement_advances_turn:
  assumes pp: "popup (game w) = Some p"
    and nf: "phase (game w) \<noteq> Finished"
    and n: "2 \<le> length (players (game w))"
    and rg: "0 \<le> current (game w)" "current (game w) < int (length (players (game w)))"
  shows "\<exists>w'. handlePopupPress now uuid w = Some w' \<and>
           current (game w') = (current (game w) + 1) mod int (length (players (game w))) \<and>
           popup (game w') = None \<and> passScreen (game w') \<and>
           players (game w') = players (game w) \<and> phase (game w') = phase (game w)"
proof (cases "action p")
  case Continue
  from press_continue [OF pp nf Continue rg, of now uuid] show ?thesis by simp
next
  case StartSnapTimer
  from rg obtain me where me: "at_index (players (game w)) (current (game w)) = Some me"
    by (auto simp: at_index_def)
  from press_timer [OF pp nf _ me, of now uuid] StartSnapTimer show ?thesis by simp
next
  case StartTikTokTimer
  from rg obtain me where me: "at_index (players (game w)) (current (game w)) = Some me"
    by (auto simp: at_index_def)
  from press_timer [OF pp nf _ me, of now uuid] StartTikTokTimer show ?thesis by simp
qed

theorem acknowledgement_advances_turn_witness:
  "map_option (current \<circ> game) (handlePopupPress 0 ''u'' dare_world) = Some 0 \<and>
   map_option (popup \<circ> game) (handlePopupPress 0 ''u'' dare_world) = Some None \<and>
   map_option (passScreen \<circ> game) (handlePopupPress 0 ''u'' dare_world) = Some True"
proof -
  have pp: "popup (game dare_world) = Some (popupFor Dare ''CONTINUE'' Continue)"
    by (simp add: dare_world_def)
  have nf: "phase (game dare_world) \<noteq> Finished" by (simp add: dare_world_def game_at_fields)
  have n: "2 \<le> length (players (game dare_world))"
    by (simp add: dare_world_def game_at_fields)
  have rg: "0 \<le> current (game dare_world)"
    "current (game dare_world) < int (length (players (game dare_world)))"
    by (simp_all add: dare_world_def game_at_fields)
  have g: "current (game dare_world) = 1" "length (players (game dare_world)) = 2"
    by (simp_all add: dare_world_def game_at_fields)
  from acknowledgement_advances_turn [OF pp nf n rg, of 0 "''u''"] g
  show ?thesis by auto
qed

subsection \<open>The lobby\<close>

lemma ascii_trim_examples:
  "ascii_trim ''Amy'' = ''Amy''" "ascii_trim '' Amy '' = ''Amy''" "ascii_trim ''   '' = []"
  "ascii_trim ''Q'' = ''Q''"
  by (simp_all add: ascii_trim_def ascii_ws_def)

lemma ascii_lower_examples:
  "ascii_lower ''Amy'' = ''amy''" "ascii_lower ''amy'' = ''amy''"
  by (simp_all add: ascii_lower_def ascii_lower_char_def)

text \<open>
  Claim C7. \<open>addPlayer\<close> leaves the state unchanged whenever the name is empty after
  trimming (it was empty or white space only), or the trimmed name equals an existing
  player's name once both are lowered, or the roster already holds 16 players; otherwise
  it appends exactly one new player, with the trimmed name, at position 0. This holds for
  every name, with \<open>trim\<close> and \<open>toLowerCase\<close> standing for the built-ins the source
  calls.
\<close>

theorem addPlayer_rejects_or_appends:
  "addPlayer trim toLowerCase nameRaw uuid rnd s =
     (if trim nameRaw = [] \<or>
         (\<exists>p\<in>set (players s). toLowerCase (pname p) = toLowerCase (trim nameRaw)) \<or>
         16 \<le> length (players s)
      then s
      else s\<lparr>players := players s @
                [\<lparr>pid = uuid, pname = trim nameRaw, pos = 0,
                  color = pickPlayerColor (map color (players s)) rnd\<rparr>]\<rparr>)"
  by (auto simp: addPlayer_def Let_def MAX_PLAYERS_def list_ex_iff)

theorem addPlayer_rejects_or_appends_witness:
  "addPlayer ascii_trim ascii_lower ''Amy'' ''id-2'' 0 amy_lobby = amy_lobby \<and>
   addPlayer ascii_trim ascii_lower ''   '' ''id-2'' 0 amy_lobby = amy_lobby \<and>
   addPlayer ascii_trim ascii_lower ''Q'' ''id-17'' 0 full_lobby = full_lobby \<and>
   map pname (players (addPlayer ascii_trim ascii_lower '' Amy '' ''id-1'' 0 initialState)) =
     [''Amy''] \<and>
   map pos (players (addPlayer ascii_trim ascii_lower '' Amy '' ''id-1'' 0 initialState)) = [0]"
proof -
  have 1: "addPlayer ascii_trim ascii_lower ''Amy'' ''id-2'' 0 amy_lobby = amy_lobby"
  proof -
    have "\<exists>p\<in>set (players amy_lobby). ascii_lower (pname p) = ascii_lower (ascii_trim ''Amy'')"
      by (simp add: amy_lobby_def ascii_trim_examples ascii_lower_examples)
    with addPlayer_rejects_or_appends [of ascii_trim ascii_lower "''Amy''" "''id-2''" 0 amy_lobby]
    show ?thesis by simp
  qed
  have 2: "addPlayer ascii_trim ascii_lower ''   '' ''id-2'' 0 amy_lobby = amy_lobby"
    using addPlayer_rejects_or_appends [of ascii_trim ascii_lower "''   ''" "''id-2''" 0 amy_lobby]
    by (simp add: ascii_trim_examples)
  have 3: "addPlayer ascii_trim ascii_lower ''Q'' ''id-17'' 0 full_lobby = full_lobby"
  proof -
    have "16 \<le> length (players full_lobby)" by (simp add: full_lobby_def)
    with addPlayer_rejects_or_appends [of ascii_trim ascii_lower "''Q''" "''id-17''" 0 full_lobby]
    show ?thesis by simp
  qed
  have 4: "players (addPlayer ascii_trim ascii_lower '' Amy '' ''id-1'' 0 initialState) =
             [\<lparr>pid = ''id-1'', pname = ''Amy'', pos = 0,
               color = pickPlayerColor [] 0\<rparr>]"
  proof -
    have b: "players initialState = []" by (simp add: initialState_def)
    from addPlayer_rejects_or_appends
      [of ascii_trim ascii_lower "'' Amy ''" "''id-1''" 0 initialState] b
    show ?thesis by (simp add: ascii_trim_examples)
  qed
  from 1 2 3 4 show ?thesis by simp
qed


text \<open>
  After BACK TO LOBBY the players stand where they stood: Amy is still on tile 5.
\<close>

theorem back_to_lobby_resets_positions_counterexample:
  "map pos (players (game (backToLobby \<lparr>store = Map.empty, game = game_at 5\<rparr>))) = [5, 0]"
  by (simp add: backToLobby_def clearSaved_def game_at_def amy_def bob_def)

text \<open>
  Claim C8, amended. The back-to-lobby action sets the phase to lobby and keeps the
  player roster exactly as it is, every player's position included; the new-game action
  replaces the state by the initial one, which has no players. On a state with players
  the two actions give different states.
\<close>

theorem back_to_lobby_keeps_roster:
  "players (game (backToLobby w)) = players (game w) \<and>
   phase (game (backToLobby w)) = Lobby \<and>
   game (newGame w) = initialState \<and>
   players (game (newGame w)) = [] \<and>
   (players (game w) \<noteq> [] \<longrightarrow> game (backToLobby w) \<noteq> game (newGame w))"
proof -
  have k: "players (game (backToLobby w)) = players (game w)"
    by (simp add: backToLobby_def clearSaved_def)
  have n: "game (newGame w) = initialState"
    by (simp add: newGame_def clearSaved_def)
  have e: "players initialState = []"
    by (simp add: initialState_def)
  have "game (backToLobby w) \<noteq> game (newGame w)" if "players (game w) \<noteq> []"
  proof
    assume "game (backToLobby w) = game (newGame w)"
    then have "players (game (backToLobby w)) = players (game (newGame w))" by simp
    with k n e that show False by simp
  qed
  moreover have "phase (game (backToLobby w)) = Lobby"
    by (simp add: backToLobby_def clearSaved_def)
  ultimately show ?thesis using k n e by simp
qed

theorem back_to_lobby_keeps_roster_witness:
  "players (game (backToLobby \<lparr>store = Map.empty, game = game_at 5\<rparr>)) = [amy 5, bob] \<and>
   game (backToLobby \<lparr>store = Map.empty, game = game_at 5\<rparr>) \<noteq>
   game (newGame \<lparr>store = Map.empty, game = game_at 5\<rparr>)"
proof -
  let ?w = "\<lparr>store = Map.empty, game = game_at 5\<rparr>"
  have ne: "players (game ?w) \<noteq> []" by (simp add: game_at_fields)
  from back_to_lobby_keeps_roster [of ?w] ne
  have "players (game (backToLobby ?w)) = players (game ?w)"
    and "game (backToLobby ?w) \<noteq> game (newGame ?w)" by blast+
  then show ?thesis by (simp add: game_at_fields)
qed


subsection \<open>The saved snapshot\<close>

lemma get_prop_Some: "get_prop v k = Inr (Some x) \<Longrightarrow> truthy v"
  by (cases v) (simp_all add: get_prop_def truthy_def)

text \<open>
  Claim C9. \<open>loadState\<close> never raises. It returns \<open>null\<close> when reading the store
  raises, when nothing is stored, when the text does not parse, and when the parsed value
  has no \<open>board\<close> or no \<open>players\<close> property; it returns a value exactly when the
  stored text is not empty and parses to a value whose \<open>board\<close> and \<open>players\<close>
  properties are both present and truthy, and then it returns that value.
\<close>

theorem loadState_never_raises:
  "(\<exists>r. loadState parse item = Inr r) \<and>
   (item = Inl e \<or> item = Inr None \<longrightarrow> loadState parse item = Inr None) \<and>
   (item = Inr (Some raw) \<and> parse raw = Inl e \<longrightarrow> loadState parse item = Inr None) \<and>
   (item = Inr (Some raw) \<and> parse raw = Inr v \<and>
      (get_prop v ''board'' = Inr None \<or> get_prop v ''players'' = Inr None)
      \<longrightarrow> loadState parse item = Inr None) \<and>
   (loadState parse item = Inr (Some v) \<longleftrightarrow>
      (\<exists>raw b ps. item = Inr (Some raw) \<and> raw \<noteq> [] \<and> parse raw = Inr v \<and>
         get_prop v ''board'' = Inr (Some b) \<and> truthy b \<and>
         get_prop v ''players'' = Inr (Some ps) \<and> truthy ps))"
proof (intro conjI)
  show "\<exists>r. loadState parse item = Inr r"
    by (simp add: loadState_def split: sum.splits)
  show "item = Inl e \<or> item = Inr None \<longrightarrow> loadState parse item = Inr None"
    by (auto simp: loadState_def loadState_try_def)
  show "item = Inr (Some raw) \<and> parse raw = Inl e \<longrightarrow> loadState parse item = Inr None"
    by (auto simp: loadState_def loadState_try_def)
  show "item = Inr (Some raw) \<and> parse raw = Inr v \<and>
      (get_prop v ''board'' = Inr None \<or> get_prop v ''players'' = Inr None)
      \<longrightarrow> loadState parse item = Inr None"
    by (auto simp: loadState_def loadState_try_def falsy_prop_def split: sum.splits option.splits)
  show "loadState parse item = Inr (Some v) \<longleftrightarrow>
      (\<exists>raw b ps. item = Inr (Some raw) \<and> raw \<noteq> [] \<and> parse raw = Inr v \<and>
         get_prop v ''board'' = Inr (Some b) \<and> truthy b \<and>
         get_prop v ''players'' = Inr (Some ps) \<and> truthy ps)"
    by (auto simp: loadState_def loadState_try_def falsy_prop_def
        split: sum.splits option.splits if_splits dest: get_prop_Some)
qed

theorem loadState_never_raises_witness:
  "loadState sample_parse (getItem won_world) = Inr None \<and>
   loadState sample_parse (Inl SecurityError) = Inr None \<and>
   loadState sample_parse (Inr None) = Inr None \<and>
   loadState sample_parse (Inr (Some ''{oops'')) = Inr None \<and>
   loadState sample_parse (Inr (Some ''{\"players\":[]}'')) = Inr None \<and>
   loadState sample_parse (Inr (Some ''{\"board\":[1],\"players\":[]}'')) =
     Inr (Some (JObj [(''board'', JArr [JNum 1]), (''players'', JArr [])]))"
proof -
  let ?ok = "JObj [(''board'', JArr [JNum 1]), (''players'', JArr [])]"
  have 0: "loadState sample_parse (getItem won_world) = Inr None"
    using loadState_never_raises [of sample_parse "getItem won_world" _ "''{}''" "JObj []"]
    by (simp add: sample_parse_def get_prop_def getItem_def won_world_def)
  have 1: "loadState sample_parse (Inl SecurityError) = Inr None"
    using loadState_never_raises [of sample_parse "Inl SecurityError" SecurityError]
    by simp
  have 2: "loadState sample_parse (Inr None) = Inr None"
    using loadState_never_raises [of sample_parse "Inr None"] by simp
  have 3: "loadState sample_parse (Inr (Some ''{oops'')) = Inr None"
    using loadState_never_raises [of sample_parse "Inr (Some ''{oops'')" SyntaxError "''{oops''"]
    by (simp add: sample_parse_def)
  have 4: "loadState sample_parse (Inr (Some ''{\"players\":[]}'')) = Inr None"
    using loadState_never_raises [of sample_parse "Inr (Some ''{\"players\":[]}'')" _
        "''{\"players\":[]}''" "JObj [(''players'', JArr [])]"]
    by (simp add: sample_parse_def get_prop_def)
  have 5: "loadState sample_parse (Inr (Some ''{\"board\":[1],\"players\":[]}'')) = Inr (Some ?ok)"
    using loadState_never_raises [of sample_parse "Inr (Some ''{\"board\":[1],\"players\":[]}'')" _ _ ?ok]
    by (simp add: sample_parse_def get_prop_def truthy_def)
  from 0 1 2 3 4 5 show ?thesis by simp
qed

text \<open>
  Claim C10. When the phase is finished, pressing the popup's button removes the saved
  snapshot and replaces the state by the initial one: phase lobby, no players, no timers,
  no popup, and the built board. The roster of the finished game is gone.
\<close>

theorem win_popup_starts_new_game:
  assumes "phase (game w) = Finished" and "popup (game w) = Some p"
  shows "\<exists>w'. handlePopupPress now uuid w = Some w' \<and>
           store w' SAVE_KEY = None \<and>
           game w' = initialState \<and>
           phase (game w') = Lobby \<and> players (game w') = [] \<and> timers (game w') = [] \<and>
           popup (game w') = None \<and> board (game w') = buildBoard"
  using assms
  by (simp add: handlePopupPress_def newGame_def clearSaved_def initialState_def)

theorem win_popup_starts_new_game_witness:
  "handlePopupPress 0 ''u'' won_world = Some \<lparr>store = Map.empty, game = initialState\<rparr> \<and>
   players (game won_world) = [amy 34, bob] \<and> store won_world SAVE_KEY = Some ''{}''"
proof -
  have f: "phase (game won_world) = Finished"
    and p: "popup (game won_world) = Some (popupFor Win ''NEW GAME'' Continue)"
    by (simp_all add: won_world_def)
  from win_popup_starts_new_game [OF f p, of 0 "''u''"]
  obtain w' where w': "handlePopupPress 0 ''u'' won_world = Some w'"
    and s: "store w' SAVE_KEY = None" and g: "game w' = initialState"
    by blast
  have "handlePopupPress 0 ''u'' won_world = Some \<lparr>store = Map.empty, game = initialState\<rparr>"
    by (simp add: handlePopupPress_def won_world_def newGame_def clearSaved_def)
  then show ?thesis using w' s g by (simp add: won_world_def game_at_fields)
qed


end
